theory Spec2Isabelle
  imports Main "HOL-Library.Word" "HOL-Library.AList"
begin

section \<open>Endpoint discovery service of Pilot (pilot/pkg/proxy/envoy/v2/eds.go)\<close>

text \<open>
  A shallow embedding of \<^verbatim>\<open>eds.go\<close>. Go structs are records, Go maps are association
  lists (looked up with \<open>map_of\<close>, stored with \<open>AList.update\<close>, deleted with
  \<open>AList.delete\<close>), pointers to connections are references into a store, and the
  functions of other packages that the file calls (the IP parser of the standard library,
  the cluster-name parsers and the registry of package \<^verbatim>\<open>model\<close>, the clock, the gRPC
  stream) are fields of an environment record, so that every theorem holds for every
  behaviour of these collaborators. Log and metric calls change no state and are left out.
\<close>

subsection \<open>Data model\<close>

type_synonym error = string

text \<open>\<^verbatim>\<open>net.IP\<close> is a byte slice; \<^verbatim>\<open>nil\<close> is \<open>None\<close>.\<close>
type_synonym IP = "8 word list"

text \<open>\<^verbatim>\<open>time.Time\<close> as nanoseconds; the zero value of the type is \<open>0\<close>.\<close>
type_synonym time = nat

definition IsZero :: "time \<Rightarrow> bool" where
  "IsZero t = (t = 0)"

text \<open>\<^verbatim>\<open>model.Port\<close>, \<^verbatim>\<open>model.PortList\<close> and its method \<^verbatim>\<open>GetNames\<close>.\<close>
record Port =
  Name :: string
  PortNumber :: int

definition GetNames :: "Port list \<Rightarrow> string list" where
  "GetNames ports = map Name ports"

type_synonym Labels = "(string \<times> string) list"
type_synonym LabelsCollection = "Labels list"

text \<open>\<^verbatim>\<open>model.NetworkEndpoint\<close> and \<^verbatim>\<open>model.ServiceInstance\<close>, with the fields the file reads.\<close>
record NetworkEndpoint =
  Address :: string
  Port :: int

record ServiceInstance =
  Endpoint :: NetworkEndpoint
  AvailabilityZone :: string

datatype protocol = TCP | UDP

text \<open>
  \<^verbatim>\<open>endpoint.LbEndpoint\<close>: the chain of single-field wrappers
  \<^verbatim>\<open>LbEndpoint.Endpoint.Address.SocketAddress\<close> is flattened to the socket address.
\<close>
record LbEndpoint =
  SocketAddress :: string
  Ipv4Compat :: bool
  Protocol :: protocol
  PortValue :: "32 word"

text \<open>\<^verbatim>\<open>endpoint.LocalityLbEndpoints\<close>; \<open>Zone\<close> is \<^verbatim>\<open>Locality.Zone\<close>.\<close>
record LocalityLbEndpoints =
  Zone :: string
  LbEndpoints :: "LbEndpoint list"

record ClusterLoadAssignment =
  ClusterName :: string
  Endpoints :: "LocalityLbEndpoints list"

record DiscoveryResponse =
  TypeUrl :: string
  VersionInfo :: string
  Nonce :: string
  Resources :: "ClusterLoadAssignment list"

record DiscoveryRequest =
  NodeId :: "string option"
  ResourceNames :: "string list"
  ErrorDetail :: "string option"

record XdsEvent =
  clusters :: "string list"

text \<open>
  The collaborators of the file. \<open>Instances\<close> returns the pair of a Go call with two
  results; \<open>ParseSubsetKey\<close> returns a pointer to a port, which may be \<^verbatim>\<open>nil\<close>;
  \<open>Send\<close> is \<^verbatim>\<open>stream.Send\<close> and returns the error, if any.
\<close>
record env =
  ParseIP :: "string \<Rightarrow> IP option"
  To4 :: "IP \<Rightarrow> IP option"
  ParseSubsetKey :: "string \<Rightarrow> string \<times> string \<times> string \<times> Port option"
  ParseServiceKey :: "string \<Rightarrow> string \<times> Port list \<times> LabelsCollection"
  SubsetToLabels :: "string \<Rightarrow> string \<Rightarrow> LabelsCollection"
  Instances :: "string \<Rightarrow> string list \<Rightarrow> LabelsCollection \<Rightarrow> ServiceInstance list \<times> error option"
  Now :: time
  EndpointType :: string
  versionInfo :: string
  nonce :: string
  Send :: "DiscoveryResponse \<Rightarrow> error option"

subsection \<open>Endpoint builder and locality grouper\<close>

definition newEndpoint :: "env \<Rightarrow> string \<Rightarrow> 32 word \<Rightarrow> error + LbEndpoint" where
  "newEndpoint e address port =
     (case ParseIP e address of
        None \<Rightarrow> Inl (''Invalid IP address '' @ address)
      | Some ipAddr \<Rightarrow>
          Inr \<lparr>SocketAddress = address,
               Ipv4Compat = (To4 e ipAddr \<noteq> None),
               Protocol = TCP,
               PortValue = port\<rparr>)"

text \<open>
  One pass of the loop over the instances. \<open>localityEpMap\<close> is the Go map from zone to
  group, kept in the order in which the zones were first seen.
\<close>
definition addInstance ::
  "env \<Rightarrow> (string \<times> LocalityLbEndpoints) list \<Rightarrow> ServiceInstance \<Rightarrow> (string \<times> LocalityLbEndpoints) list" where
  "addInstance e localityEpMap instance =
     (case newEndpoint e (Address (Endpoint instance)) (word_of_int (Port (Endpoint instance))) of
        Inl err \<Rightarrow> localityEpMap
      | Inr lbEp \<Rightarrow>
          (let locality = AvailabilityZone instance;
               locLbEps = (case map_of localityEpMap locality of
                             Some g \<Rightarrow> g
                           | None \<Rightarrow> \<lparr>Zone = AvailabilityZone instance, LbEndpoints = []\<rparr>)
           in AList.update locality (locLbEps\<lparr>LbEndpoints := LbEndpoints locLbEps @ [lbEp]\<rparr>) localityEpMap))"

text \<open>
  Go ranges over \<open>localityEpMap\<close> in an unspecified order to build the result; the model
  lists the groups in first-seen order. The statements below about the result speak of its
  zones and its endpoint counts only, which no reordering changes.
\<close>
definition localityLbEndpointsFromInstances :: "env \<Rightarrow> ServiceInstance list \<Rightarrow> LocalityLbEndpoints list" where
  "localityLbEndpointsFromInstances e instances = map snd (foldl (addInstance e) [] instances)"

subsection \<open>Cache entries, connections and the process-wide state\<close>

text \<open>
  A connection is reached through pointers (from the stream handler, and from the watcher
  map of every entry it watches), so connections live in a store indexed by references.
  \<open>pushChannel\<close> is the content of the Go channel of capacity 1; \<open>stream\<close> lists the
  responses sent on the gRPC stream so far.
\<close>
type_synonym con_ref = nat

record XdsConnection =
  pushChannel :: "XdsEvent list"
  PeerAddr :: string
  Clusters :: "string list"
  Connect :: time
  stream :: "DiscoveryResponse list"
  ConID :: string
  added :: bool

record EdsCluster =
  LoadAssignment :: "ClusterLoadAssignment option"
  FirstUse :: time
  EdsClients :: "(string \<times> con_ref) list"
  NonEmptyTime :: time

text \<open>
  The package variables \<open>edsClusters\<close> and \<open>connectionNumber\<close> (an \<^verbatim>\<open>int64\<close>), the store
  of connections, and the connection directory \<open>adsClients\<close>. Each function below runs
  from its first line to its last without interleaving, which is what the two mutexes
  give to the sections they guard.
\<close>
record state =
  edsClusters :: "(string \<times> EdsCluster) list"
  connectionNumber :: "64 word"
  conns :: "con_ref \<Rightarrow> XdsConnection"
  adsClients :: "(string \<times> con_ref) list"

text \<open>A nil-pointer dereference ends the goroutine in a panic; the two sites of the file.\<close>
datatype fault = NilPort | NilLoadAssignment

text \<open>
  The result of a function that sends on a channel: it returns, or it is parked at a send
  on a full channel (with the state it has built so far), or it panics.
\<close>
datatype 'a outcome = Returns 'a | Blocks 'a | Panics fault

definition loadAssignment :: "EdsCluster \<Rightarrow> ClusterLoadAssignment option" where
  "loadAssignment c = LoadAssignment c"

text \<open>A mutation of the entry \<open>c\<close> through its pointer, seen from the registry.\<close>
definition storeEdsCluster :: "string \<Rightarrow> EdsCluster \<Rightarrow> state \<Rightarrow> state" where
  "storeEdsCluster clusterName c s = s\<lparr>edsClusters := AList.update clusterName c (edsClusters s)\<rparr>"

subsection \<open>Connection identities\<close>

text \<open>\<^verbatim>\<open>strconv.Itoa\<close>: the decimal digits, with a minus sign for a negative number.\<close>
fun digits :: "nat \<Rightarrow> string" where
  "digits n = (if n < 10 then [''0123456789'' ! n] else digits (n div 10) @ [''0123456789'' ! (n mod 10)])"

declare digits.simps [simp del]

definition Itoa :: "int \<Rightarrow> string" where
  "Itoa i = (if i < 0 then CHR ''-'' # digits (nat (- i)) else digits (nat i))"

text \<open>
  \<open>connectionNumber++\<close> wraps around as Go's signed integers do; \<open>int(c)\<close> is the
  identity on a 64-bit platform.
\<close>
definition connectionID :: "string \<Rightarrow> state \<Rightarrow> string \<times> state" where
  "connectionID node s =
     (let s1 = s\<lparr>connectionNumber := connectionNumber s + 1\<rparr>;
          c = connectionNumber s1
      in (node @ ''-'' @ Itoa (sint c), s1))"

text \<open>Successive calls of \<open>connectionID\<close>, one per node identifier; the identities in call order.\<close>
fun connectionIDs :: "string list \<Rightarrow> state \<Rightarrow> string list \<times> state" where
  "connectionIDs [] s = ([], s)"
| "connectionIDs (node # nodes) s =
     (case connectionID node s of (i, s1) \<Rightarrow>
        (case connectionIDs nodes s1 of (is, s2) \<Rightarrow> (i # is, s2)))"

subsection \<open>Recomputing a cache entry\<close>

text \<open>\<^verbatim>\<open>strings.Index(s, prefix) == 0\<close>.\<close>
definition HasPrefix :: "string \<Rightarrow> string \<Rightarrow> bool" where
  "HasPrefix s pre = (take (length pre) s = pre)"

text \<open>
  The first part of \<open>updateCluster\<close>: the cluster name parsed under one of the two naming
  schemes into host name, ports and labels. \<open>p.Name\<close> dereferences the port that
  \<open>ParseSubsetKey\<close> returned.
\<close>
definition parseClusterName :: "env \<Rightarrow> string \<Rightarrow> fault + (string \<times> Port list \<times> LabelsCollection)" where
  "parseClusterName e clusterName =
     (if HasPrefix clusterName ''outbound'' \<or> HasPrefix clusterName ''inbound''
      then (case ParseSubsetKey e clusterName of
              (direction, subsetName, hostname, p) \<Rightarrow>
                (case p of
                   None \<Rightarrow> Inl NilPort
                 | Some port \<Rightarrow> Inr (hostname, [port], SubsetToLabels e subsetName hostname)))
      else Inr (ParseServiceKey e clusterName))"

text \<open>The result is the returned error and the entry as the call leaves it.\<close>
definition updateCluster :: "env \<Rightarrow> string \<Rightarrow> EdsCluster \<Rightarrow> fault + (error option \<times> EdsCluster)" where
  "updateCluster e clusterName edsCluster =
     (case parseClusterName e clusterName of
        Inl f \<Rightarrow> Inl f
      | Inr (hostname, ports, labels) \<Rightarrow>
          (case Instances e hostname (GetNames ports) labels of
             (instances, Some err) \<Rightarrow> Inr (Some err, edsCluster)
           | (instances, None) \<Rightarrow>
               (let locEps = localityLbEndpointsFromInstances e instances;
                    c1 = edsCluster\<lparr>LoadAssignment :=
                           Some \<lparr>ClusterName = clusterName, Endpoints = locEps\<rparr>\<rparr>
                in Inr (None,
                        if length locEps > 0 \<and> IsZero (NonEmptyTime c1)
                        then c1\<lparr>NonEmptyTime := Now e\<rparr> else c1))))"

subsection \<open>The registry\<close>

definition getEdsCluster :: "string \<Rightarrow> state \<Rightarrow> EdsCluster option" where
  "getEdsCluster clusterName s = map_of (edsClusters s) clusterName"

definition getOrAddEdsCluster :: "env \<Rightarrow> string \<Rightarrow> state \<Rightarrow> EdsCluster \<times> state" where
  "getOrAddEdsCluster e clusterName s =
     (case map_of (edsClusters s) clusterName of
        Some c \<Rightarrow> (c, s)
      | None \<Rightarrow>
          (let c = \<lparr>LoadAssignment = None, FirstUse = Now e, EdsClients = [], NonEmptyTime = 0\<rparr>
           in (c, s\<lparr>edsClusters := AList.update clusterName c (edsClusters s)\<rparr>)))"

definition addEdsCon :: "env \<Rightarrow> string \<Rightarrow> string \<Rightarrow> con_ref \<Rightarrow> state \<Rightarrow> state" where
  "addEdsCon e clusterName node connection s =
     (case getOrAddEdsCluster e clusterName s of
        (c, s1) \<Rightarrow>
          storeEdsCluster clusterName
            (c\<lparr>EdsClients := AList.update node connection (EdsClients c)\<rparr>) s1)"

definition removeEdsCon :: "string \<Rightarrow> string \<Rightarrow> con_ref \<Rightarrow> state \<Rightarrow> state" where
  "removeEdsCon clusterName node connection s =
     (case getEdsCluster clusterName s of
        None \<Rightarrow> s
      | Some c \<Rightarrow>
          (case map_of (EdsClients c) node of
             None \<Rightarrow> s
           | Some oldcon \<Rightarrow>
               if oldcon \<noteq> connection then s
               else (let c1 = c\<lparr>EdsClients := AList.delete node (EdsClients c)\<rparr>;
                         s1 = storeEdsCluster clusterName c1 s
                     in if length (EdsClients c1) = 0
                        then s1\<lparr>edsClusters := AList.delete clusterName (edsClusters s1)\<rparr>
                        else s1)))"

subsection \<open>Push to one connection\<close>

definition endpoints :: "env \<Rightarrow> string list \<Rightarrow> ClusterLoadAssignment list \<Rightarrow> DiscoveryResponse" where
  "endpoints e clusterNames outRes =
     \<lparr>TypeUrl = EndpointType e, VersionInfo = versionInfo e, Nonce = nonce e, Resources = outRes\<rparr>"

text \<open>
  The body of the loop of \<open>pushEds\<close> up to the dereference of \<open>l\<close>: either the
  \<^verbatim>\<open>continue\<close> was taken (\<open>Skip\<close>), or the loop goes on with the pointer \<open>l\<close>.
\<close>
datatype fetched = Skip | Assignment "ClusterLoadAssignment option"

definition fetchAssignment :: "env \<Rightarrow> string \<Rightarrow> state \<Rightarrow> fault + (fetched \<times> state)" where
  "fetchAssignment e clusterName s =
     (case getOrAddEdsCluster e clusterName s of
        (c, s1) \<Rightarrow>
          (case loadAssignment c of
             Some l \<Rightarrow> Inr (Assignment (Some l), s1)
           | None \<Rightarrow>
               (case updateCluster e clusterName c of
                  Inl f \<Rightarrow> Inl f
                | Inr (Some err, c1) \<Rightarrow> Inr (Skip, storeEdsCluster clusterName c1 s1)
                | Inr (None, c1) \<Rightarrow>
                    Inr (Assignment (loadAssignment c1), storeEdsCluster clusterName c1 s1))))"

text \<open>
  The loop over \<open>con.Clusters\<close>. \<open>l.Endpoints\<close> panics when \<open>l\<close> is nil. The counters
  \<open>endpoints\<close>, \<open>emptyClusters\<close> and \<open>empty\<close> only feed the log line and are left out.
\<close>
fun pushEdsLoop ::
  "env \<Rightarrow> string list \<Rightarrow> ClusterLoadAssignment list \<Rightarrow> state \<Rightarrow> fault + (ClusterLoadAssignment list \<times> state)" where
  "pushEdsLoop e [] resAny s = Inr (resAny, s)"
| "pushEdsLoop e (clusterName # rest) resAny s =
     (case fetchAssignment e clusterName s of
        Inl f \<Rightarrow> Inl f
      | Inr (Skip, s1) \<Rightarrow> pushEdsLoop e rest resAny s1
      | Inr (Assignment None, s1) \<Rightarrow> Inl NilLoadAssignment
      | Inr (Assignment (Some l), s1) \<Rightarrow> pushEdsLoop e rest (resAny @ [l]) s1)"

definition pushEds :: "env \<Rightarrow> con_ref \<Rightarrow> state \<Rightarrow> fault + (error option \<times> state)" where
  "pushEds e con s =
     (case pushEdsLoop e (Clusters (conns s con)) [] s of
        Inl f \<Rightarrow> Inl f
      | Inr (resAny, s1) \<Rightarrow>
          (let response = endpoints e (Clusters (conns s1 con)) resAny
           in case Send e response of
                Some err \<Rightarrow> Inr (Some err, s1)
              | None \<Rightarrow>
                  Inr (None,
                       s1\<lparr>conns := (conns s1)
                             (con := (conns s1 con)\<lparr>stream := stream (conns s1 con) @ [response]\<rparr>)\<rparr>)))"

subsection \<open>Global invalidation\<close>

text \<open>
  \<^verbatim>\<open>ch <- v\<close> on the channel made by \<^verbatim>\<open>make(chan *XdsEvent, 1)\<close>: the new content of the
  channel, or \<open>None\<close> when the channel is full and the sender is parked.
\<close>
definition chanSend :: "'a \<Rightarrow> 'a list \<Rightarrow> 'a list option" where
  "chanSend v ch = (if length ch < 1 then Some (ch @ [v]) else None)"

text \<open>The loop over \<open>edsCluster.EdsClients\<close>, in the order in which the map is listed.\<close>
fun signalWatchers :: "string \<Rightarrow> (string \<times> con_ref) list \<Rightarrow> state \<Rightarrow> state outcome" where
  "signalWatchers clusterName [] s = Returns s"
| "signalWatchers clusterName ((node, edsCon) # rest) s =
     (case chanSend \<lparr>clusters = [clusterName]\<rparr> (pushChannel (conns s edsCon)) of
        None \<Rightarrow> Blocks s
      | Some ch \<Rightarrow>
          signalWatchers clusterName rest
            (s\<lparr>conns := (conns s)(edsCon := (conns s edsCon)\<lparr>pushChannel := ch\<rparr>)\<rparr>))"

text \<open>The loop over the copy \<open>tmpMap\<close> of the registry.\<close>
fun edsPushAllLoop :: "env \<Rightarrow> (string \<times> EdsCluster) list \<Rightarrow> state \<Rightarrow> state outcome" where
  "edsPushAllLoop e [] s = Returns s"
| "edsPushAllLoop e ((clusterName, edsCluster) # rest) s =
     (case updateCluster e clusterName edsCluster of
        Inl f \<Rightarrow> Panics f
      | Inr (Some err, c1) \<Rightarrow> edsPushAllLoop e rest (storeEdsCluster clusterName c1 s)
      | Inr (None, c1) \<Rightarrow>
          (case signalWatchers clusterName (EdsClients c1) (storeEdsCluster clusterName c1 s) of
             Returns s1 \<Rightarrow> edsPushAllLoop e rest s1
           | Blocks s1 \<Rightarrow> Blocks s1
           | Panics f \<Rightarrow> Panics f))"

definition edsPushAll :: "env \<Rightarrow> state \<Rightarrow> state outcome" where
  "edsPushAll e s = edsPushAllLoop e (edsClusters s) s"

subsection \<open>The stream handler\<close>

text \<open>
  Modelled from the spec: \<open>addCon\<close> is defined in another file of the package; the spec
  describes the Connection Directory as a map from connection identity to connection, in
  which the handler inserts the connection.
\<close>
definition addCon :: "string \<Rightarrow> con_ref \<Rightarrow> state \<Rightarrow> state" where
  "addCon conID con s = s\<lparr>adsClients := AList.update conID con (adsClients s)\<rparr>"

text \<open>
  The local variables of \<open>StreamEndpoints\<close> that live across iterations of its loop, and
  the calls of \<open>removeCon\<close> it has deferred.
\<close>
record handler =
  conID :: string
  initialRequestReceived :: bool
  con :: con_ref
  deferred :: "(string \<times> con_ref) list"

text \<open>
  What the \<^verbatim>\<open>select\<close> receives: a request from \<open>reqChannel\<close>, the closing of \<open>reqChannel\<close>
  (with \<open>receiveError\<close> as the reader left it), or an event from \<open>con.pushChannel\<close>.
\<close>
datatype event = Request DiscoveryRequest | Closed "error option" | PushSignal

text \<open>
  One iteration of the loop: it goes on to the next iteration, or \<open>StreamEndpoints\<close>
  returns, or it panics; \<open>NotReady\<close> when the event is a receive from an empty channel.
\<close>
datatype step = Continue handler state | Return "error option" handler state | Panic fault | NotReady

text \<open>
  The case of the \<^verbatim>\<open>select\<close> for a request. The first component tells whether the
  \<^verbatim>\<open>continue\<close> of the acknowledgment branch was taken.
\<close>
definition onRequest :: "env \<Rightarrow> DiscoveryRequest \<Rightarrow> handler \<Rightarrow> state \<Rightarrow> bool \<times> handler \<times> state" where
  "onRequest e discReq h s =
     (case (case NodeId discReq of
              None \<Rightarrow> (h, s)
            | Some node \<Rightarrow>
                if conID h = []
                then (case connectionID node s of (i, s') \<Rightarrow> (h\<lparr>conID := i\<rparr>, s'))
                else (h, s)) of
        (h1, s1) \<Rightarrow>
          (let clusters2 = ResourceNames discReq;
               h2 = (if initialRequestReceived h1
                        \<and> length clusters2 > length (Clusters (conns s1 (con h1)))
                     then h1\<lparr>initialRequestReceived := False\<rparr> else h1)
           in if initialRequestReceived h2 \<and> length (Clusters (conns s1 (con h2))) > 0
              then (True, h2, s1)
              else (let s2 = s1\<lparr>conns := (conns s1)
                                  (con h2 := (conns s1 (con h2))
                                     \<lparr>Clusters := ResourceNames discReq, ConID := conID h2\<rparr>)\<rparr>;
                        h3 = h2\<lparr>initialRequestReceived := True\<rparr>;
                        s3 = foldl (\<lambda>t c. addEdsCon e c (conID h3) (con h3) t) s2
                               (Clusters (conns s2 (con h3)))
                    in if \<not> added (conns s3 (con h3))
                       then (False,
                             h3\<lparr>deferred := (conID h3, con h3) # deferred h3\<rparr>,
                             addCon (conID h3) (con h3)
                               (s3\<lparr>conns := (conns s3)
                                     (con h3 := (conns s3 (con h3))\<lparr>added := True\<rparr>)\<rparr>))
                       else (False, h3, s3))))"

text \<open>The end of the loop body: the push when the connection watches something.\<close>
definition pushIfWatching :: "env \<Rightarrow> handler \<Rightarrow> state \<Rightarrow> step" where
  "pushIfWatching e h s =
     (if length (Clusters (conns s (con h))) > 0
      then (case pushEds e (con h) s of
              Inl f \<Rightarrow> Panic f
            | Inr (Some err, s1) \<Rightarrow> Return (Some err) h s1
            | Inr (None, s1) \<Rightarrow> Continue h s1)
      else Continue h s)"

definition StreamEndpointsStep :: "env \<Rightarrow> event \<Rightarrow> handler \<Rightarrow> state \<Rightarrow> step" where
  "StreamEndpointsStep e ev h s =
     (case ev of
        Closed receiveError \<Rightarrow> Return receiveError h s
      | Request discReq \<Rightarrow>
          (case onRequest e discReq h s of
             (True, h1, s1) \<Rightarrow> Continue h1 s1
           | (False, h1, s1) \<Rightarrow> pushIfWatching e h1 s1)
      | PushSignal \<Rightarrow>
          (case pushChannel (conns s (con h)) of
             [] \<Rightarrow> NotReady
           | ev # evs \<Rightarrow>
               pushIfWatching e h
                 (s\<lparr>conns := (conns s)(con h := (conns s (con h))\<lparr>pushChannel := evs\<rparr>)\<rparr>)))"

subsection \<open>Notions used in the statements\<close>

text \<open>An instance whose address \<open>newEndpoint\<close> accepts.\<close>
definition validAddress :: "env \<Rightarrow> ServiceInstance \<Rightarrow> bool" where
  "validAddress e i = (ParseIP e (Address (Endpoint i)) \<noteq> None)"

text \<open>The number of endpoints in all the groups of the zone map.\<close>
definition endpointCount :: "(string \<times> LocalityLbEndpoints) list \<Rightarrow> nat" where
  "endpointCount m = sum_list (map (\<lambda>kg. length (LbEndpoints (snd kg))) m)"

subsection \<open>An environment for the worked examples\<close>

text \<open>
  A registry with the service \<open>svc-a\<close> (two instances in zone \<open>z1\<close>, one in zone \<open>z2\<close>
  and one with a malformed address in zone \<open>z3\<close>), the service \<open>svc-b\<close> without
  instances, and a lookup error for every other host. The IP parser knows the addresses of
  the examples; \<open>exampleTo4\<close> follows \<^verbatim>\<open>IP.To4\<close>.
\<close>
definition exampleParseIP :: "string \<Rightarrow> IP option" where
  "exampleParseIP a =
     (if a = ''10.0.0.1'' then Some [10, 0, 0, 1]
      else if a = ''10.0.0.2'' then Some [10, 0, 0, 2]
      else if a = ''10.0.1.1'' then Some [10, 0, 1, 1]
      else if a = ''::1'' then Some (replicate 15 0 @ [1])
      else None)"

definition exampleTo4 :: "IP \<Rightarrow> IP option" where
  "exampleTo4 ip =
     (if length ip = 4 then Some ip
      else if length ip = 16 \<and> take 10 ip = replicate 10 0 \<and> ip ! 10 = 255 \<and> ip ! 11 = 255
      then Some (drop 12 ip)
      else None)"

definition svcA :: "ServiceInstance list" where
  "svcA =
     [\<lparr>Endpoint = \<lparr>Address = ''10.0.0.1'', Port = 8080\<rparr>, AvailabilityZone = ''z1''\<rparr>,
      \<lparr>Endpoint = \<lparr>Address = ''10.0.1.1'', Port = 8080\<rparr>, AvailabilityZone = ''z2''\<rparr>,
      \<lparr>Endpoint = \<lparr>Address = ''not-an-ip'', Port = 8080\<rparr>, AvailabilityZone = ''z3''\<rparr>,
      \<lparr>Endpoint = \<lparr>Address = ''10.0.0.2'', Port = 8080\<rparr>, AvailabilityZone = ''z1''\<rparr>]"

definition exampleEnv :: env where
  "exampleEnv =
     \<lparr>ParseIP = exampleParseIP,
      To4 = exampleTo4,
      ParseSubsetKey = (\<lambda>name. ([], [], drop 9 name, Some \<lparr>Name = [], PortNumber = 80\<rparr>)),
      ParseServiceKey = (\<lambda>name. (name, [], [])),
      SubsetToLabels = (\<lambda>subsetName hostname. []),
      Instances = (\<lambda>hostname ports labels.
         if hostname = ''svc-a'' then (svcA, None)
         else if hostname = ''svc-b'' then ([], None)
         else ([], Some ''unknown service'')),
      Now = 1000,
      EndpointType = ''type.googleapis.com/envoy.api.v2.ClusterLoadAssignment'',
      versionInfo = ''v1'',
      nonce = ''n1'',
      Send = (\<lambda>response. None)\<rparr>"

section \<open>Verified properties\<close>

subsection \<open>Endpoint builder\<close>

lemma newEndpoint_Inr_iff: "(\<exists>ep. newEndpoint e a p = Inr ep) = (ParseIP e a \<noteq> None)"
  by (auto simp: newEndpoint_def split: option.splits)

text \<open>
  Claim C7. For every address and port, \<open>newEndpoint\<close> succeeds exactly when the address
  parses as an IP literal. On success the endpoint carries the address and the port it
  was given, and its IPv4-compatibility flag is true exactly when \<^verbatim>\<open>To4\<close> of the parsed
  address is not nil. On failure the result is the invalid-address error. The function
  has no state to change: it is a function of its arguments and the parser alone.
\<close>
theorem newEndpoint_builds:
  "((\<exists>ep. newEndpoint e address port = Inr ep) = (ParseIP e address \<noteq> None))
   \<and> (\<forall>ep. newEndpoint e address port = Inr ep \<longrightarrow>
         SocketAddress ep = address \<and> PortValue ep = port \<and> Protocol ep = TCP
         \<and> (Ipv4Compat ep = (\<exists>ip. ParseIP e address = Some ip \<and> To4 e ip \<noteq> None)))
   \<and> (ParseIP e address = None \<longrightarrow>
         newEndpoint e address port = Inl (''Invalid IP address '' @ address))"
proof (cases "ParseIP e address")
  case None
  then show ?thesis by (simp add: newEndpoint_def)
next
  case (Some ip)
  then show ?thesis by (auto simp: newEndpoint_def)
qed

theorem newEndpoint_builds_witness:
  "newEndpoint exampleEnv ''10.0.0.1'' 8080 =
     Inr \<lparr>SocketAddress = ''10.0.0.1'', Ipv4Compat = True, Protocol = TCP, PortValue = 8080\<rparr>
   \<and> Ipv4Compat (projr (newEndpoint exampleEnv ''::1'' 8080)) = False
   \<and> newEndpoint exampleEnv ''not-an-ip'' 8080 = Inl ''Invalid IP address not-an-ip''"
proof -
  have p1: "ParseIP exampleEnv ''10.0.0.1'' = Some [10, 0, 0, 1]"
    by (simp add: exampleEnv_def exampleParseIP_def)
  have p2: "ParseIP exampleEnv ''::1'' = Some (replicate 15 0 @ [1])"
    by (simp add: exampleEnv_def exampleParseIP_def)
  have p3: "ParseIP exampleEnv ''not-an-ip'' = None"
    by (simp add: exampleEnv_def exampleParseIP_def)
  have t1: "To4 exampleEnv [10, 0, 0, 1] \<noteq> None"
    by (simp add: exampleEnv_def exampleTo4_def)
  have t2: "To4 exampleEnv (replicate 15 0 @ [1]) = None"
    by (simp add: exampleEnv_def exampleTo4_def nth_append)
  obtain ep1 where e1: "newEndpoint exampleEnv ''10.0.0.1'' 8080 = Inr ep1"
    using newEndpoint_builds [of exampleEnv "''10.0.0.1''" 8080] p1 by auto
  obtain ep2 where e2: "newEndpoint exampleEnv ''::1'' 8080 = Inr ep2"
    using newEndpoint_builds [of exampleEnv "''::1''" 8080] p2 by auto
  have f1: "SocketAddress ep1 = ''10.0.0.1'' \<and> PortValue ep1 = 8080 \<and> Protocol ep1 = TCP \<and> Ipv4Compat ep1"
    using newEndpoint_builds [of exampleEnv "''10.0.0.1''" 8080] e1 p1 t1 by simp
  have f2: "\<not> Ipv4Compat ep2"
    using newEndpoint_builds [of exampleEnv "''::1''" 8080] e2 p2 t2 by simp
  have f3: "newEndpoint exampleEnv ''not-an-ip'' 8080 = Inl ''Invalid IP address not-an-ip''"
    using newEndpoint_builds [of exampleEnv "''not-an-ip''" 8080] p3 by simp
  from f1 have "ep1 = \<lparr>SocketAddress = ''10.0.0.1'', Ipv4Compat = True, Protocol = TCP, PortValue = 8080\<rparr>"
    by (cases ep1) simp
  with e1 e2 f2 f3 show ?thesis by simp
qed

subsection \<open>Locality grouper\<close>

lemma addInstance_invalid: "\<not> validAddress e i \<Longrightarrow> addInstance e m i = m"
  by (simp add: addInstance_def validAddress_def newEndpoint_def)

lemma addInstance_keys:
  "fst ` set (addInstance e m i) =
     (if validAddress e i then insert (AvailabilityZone i) (fst ` set m) else fst ` set m)"
  by (auto simp: addInstance_def validAddress_def newEndpoint_def Let_def dom_update split: option.splits)

lemma addInstance_distinct: "distinct (map fst m) \<Longrightarrow> distinct (map fst (addInstance e m i))"
  by (auto simp: addInstance_def newEndpoint_def Let_def distinct_update split: option.splits sum.splits)

lemma endpointCount_update_new:
  "map_of m k = None \<Longrightarrow> endpointCount (AList.update k v m) = endpointCount m + length (LbEndpoints v)"
  by (induction m) (auto simp: endpointCount_def)

lemma endpointCount_update_old:
  "distinct (map fst m) \<Longrightarrow> map_of m k = Some g \<Longrightarrow>
   endpointCount (AList.update k v m) + length (LbEndpoints g) = endpointCount m + length (LbEndpoints v)"
proof (induction m)
  case Nil
  then show ?case by simp
next
  case (Cons a m)
  show ?case
  proof (cases "fst a = k")
    case True
    with Cons.prems show ?thesis
      by (cases a) (auto simp: endpointCount_def)
  next
    case False
    with Cons show ?thesis
      by (cases a) (auto simp: endpointCount_def)
  qed
qed

lemma addInstance_valid:
  "newEndpoint e (Address (Endpoint i)) (word_of_int (Port (Endpoint i))) = Inr ep \<Longrightarrow>
   addInstance e m i =
     AList.update (AvailabilityZone i)
       (case map_of m (AvailabilityZone i) of
          Some g \<Rightarrow> g\<lparr>LbEndpoints := LbEndpoints g @ [ep]\<rparr>
        | None \<Rightarrow> \<lparr>Zone = AvailabilityZone i, LbEndpoints = [ep]\<rparr>) m"
  by (cases "map_of m (AvailabilityZone i)") (simp_all add: addInstance_def Let_def)

lemma addInstance_count:
  assumes "distinct (map fst m)"
  shows "endpointCount (addInstance e m i) = endpointCount m + (if validAddress e i then 1 else 0)"
proof (cases "ParseIP e (Address (Endpoint i))")
  case None
  then show ?thesis by (simp add: addInstance_invalid validAddress_def)
next
  case (Some ip)
  then obtain ep where eq: "addInstance e m i =
     AList.update (AvailabilityZone i)
       (case map_of m (AvailabilityZone i) of
          Some g \<Rightarrow> g\<lparr>LbEndpoints := LbEndpoints g @ [ep]\<rparr>
        | None \<Rightarrow> \<lparr>Zone = AvailabilityZone i, LbEndpoints = [ep]\<rparr>) m"
    using addInstance_valid newEndpoint_Inr_iff [of e "Address (Endpoint i)" "word_of_int (Port (Endpoint i))"]
    by auto
  have v: "validAddress e i" using Some by (simp add: validAddress_def)
  show ?thesis
  proof (cases "map_of m (AvailabilityZone i)")
    case None
    then show ?thesis using v by (simp add: eq endpointCount_update_new)
  next
    case (Some g)
    from endpointCount_update_old [OF assms Some, of "g\<lparr>LbEndpoints := LbEndpoints g @ [ep]\<rparr>"]
    show ?thesis using v Some by (simp add: eq)
  qed
qed

lemma addInstance_zone:
  assumes "\<forall>kg \<in> set m. Zone (snd kg) = fst kg" and "distinct (map fst m)"
  shows "\<forall>kg \<in> set (addInstance e m i). Zone (snd kg) = fst kg"
proof (cases "ParseIP e (Address (Endpoint i))")
  case None
  then show ?thesis using assms by (simp add: addInstance_invalid validAddress_def)
next
  case (Some ip)
  then obtain ep where eq: "addInstance e m i =
     AList.update (AvailabilityZone i)
       (case map_of m (AvailabilityZone i) of
          Some g \<Rightarrow> g\<lparr>LbEndpoints := LbEndpoints g @ [ep]\<rparr>
        | None \<Rightarrow> \<lparr>Zone = AvailabilityZone i, LbEndpoints = [ep]\<rparr>) m"
    using addInstance_valid newEndpoint_Inr_iff [of e "Address (Endpoint i)" "word_of_int (Port (Endpoint i))"]
    by auto
  have d: "distinct (map fst (addInstance e m i))" using assms(2) by (rule addInstance_distinct)
  show ?thesis
  proof
    fix kg assume "kg \<in> set (addInstance e m i)"
    then have "map_of (addInstance e m i) (fst kg) = Some (snd kg)" using d by simp
    then have "snd kg = (case map_of m (AvailabilityZone i) of
          Some g \<Rightarrow> g\<lparr>LbEndpoints := LbEndpoints g @ [ep]\<rparr>
        | None \<Rightarrow> \<lparr>Zone = AvailabilityZone i, LbEndpoints = [ep]\<rparr>) \<and> fst kg = AvailabilityZone i
        \<or> map_of m (fst kg) = Some (snd kg)"
      unfolding eq by (auto simp: update_conv' split: if_splits)
    then show "Zone (snd kg) = fst kg"
    proof
      assume a: "snd kg = (case map_of m (AvailabilityZone i) of
          Some g \<Rightarrow> g\<lparr>LbEndpoints := LbEndpoints g @ [ep]\<rparr>
        | None \<Rightarrow> \<lparr>Zone = AvailabilityZone i, LbEndpoints = [ep]\<rparr>) \<and> fst kg = AvailabilityZone i"
      show ?thesis
      proof (cases "map_of m (AvailabilityZone i)")
        case None
        then show ?thesis using a by simp
      next
        case (Some g)
        then have "(AvailabilityZone i, g) \<in> set m" by (rule map_of_SomeD)
        then have "Zone g = AvailabilityZone i" using assms(1) by force
        then show ?thesis using a Some by simp
      qed
    next
      assume "map_of m (fst kg) = Some (snd kg)"
      then have "(fst kg, snd kg) \<in> set m" by (rule map_of_SomeD)
      then show ?thesis using assms(1) by simp
    qed
  qed
qed

lemma groups_invariant:
  "distinct (map fst (foldl (addInstance e) [] instances))
   \<and> (\<forall>kg \<in> set (foldl (addInstance e) [] instances). Zone (snd kg) = fst kg)
   \<and> fst ` set (foldl (addInstance e) [] instances)
       = AvailabilityZone ` {i \<in> set instances. validAddress e i}
   \<and> endpointCount (foldl (addInstance e) [] instances) = length (filter (validAddress e) instances)"
proof (induction instances rule: rev_induct)
  case Nil
  show ?case by (simp add: endpointCount_def)
next
  case (snoc i instances)
  let ?m = "foldl (addInstance e) [] instances"
  from snoc have d: "distinct (map fst ?m)" and z: "\<forall>kg \<in> set ?m. Zone (snd kg) = fst kg"
    and k: "fst ` set ?m = AvailabilityZone ` {i \<in> set instances. validAddress e i}"
    and c: "endpointCount ?m = length (filter (validAddress e) instances)"
    by simp_all
  have "distinct (map fst (addInstance e ?m i))" using d by (rule addInstance_distinct)
  moreover have "\<forall>kg \<in> set (addInstance e ?m i). Zone (snd kg) = fst kg"
    using z d by (rule addInstance_zone)
  moreover have "fst ` set (addInstance e ?m i)
       = AvailabilityZone ` {j \<in> set (instances @ [i]). validAddress e j}"
    using k by (auto simp: addInstance_keys)
  moreover have "endpointCount (addInstance e ?m i) = length (filter (validAddress e) (instances @ [i]))"
    using c d by (simp add: addInstance_count)
  ultimately show ?case by simp
qed

text \<open>
  Claim C6, as amended. For every list of instances, the grouper returns exactly one group
  for every distinct zone among the instances whose address is valid (the empty zone is a
  zone like any other), and no other group; the endpoints of all groups together are as
  many as the instances with a valid address. An instance with an invalid address is
  skipped and the grouping goes on; it contributes neither an endpoint nor a group.
\<close>
theorem localityLbEndpointsFromInstances_groups:
  "distinct (map Zone (localityLbEndpointsFromInstances e instances))
   \<and> set (map Zone (localityLbEndpointsFromInstances e instances))
       = AvailabilityZone ` {i \<in> set instances. validAddress e i}
   \<and> sum_list (map (\<lambda>g. length (LbEndpoints g)) (localityLbEndpointsFromInstances e instances))
       = length (filter (validAddress e) instances)"
proof -
  let ?m = "foldl (addInstance e) [] instances"
  note inv = groups_invariant [of e instances]
  have zs: "map Zone (map snd ?m) = map fst ?m"
    using inv by simp
  have "sum_list (map (\<lambda>g. length (LbEndpoints g)) (map snd ?m)) = endpointCount ?m"
    by (simp add: endpointCount_def comp_def)
  with inv zs show ?thesis
    unfolding localityLbEndpointsFromInstances_def by (simp del: map_map)
qed

theorem localityLbEndpointsFromInstances_groups_witness:
  "map Zone (localityLbEndpointsFromInstances exampleEnv svcA) = [''z1'', ''z2'']
   \<and> map (\<lambda>g. length (LbEndpoints g)) (localityLbEndpointsFromInstances exampleEnv svcA) = [2, 1]
   \<and> length (filter (validAddress exampleEnv) svcA) = 3
   \<and> distinct (map Zone (localityLbEndpointsFromInstances exampleEnv svcA))
   \<and> sum_list (map (\<lambda>g. length (LbEndpoints g)) (localityLbEndpointsFromInstances exampleEnv svcA))
       = length (filter (validAddress exampleEnv) svcA)"
  using localityLbEndpointsFromInstances_groups [of exampleEnv svcA]
  by (simp add: localityLbEndpointsFromInstances_def svcA_def addInstance_def newEndpoint_def
      exampleEnv_def exampleParseIP_def exampleTo4_def Let_def validAddress_def)

text \<open>
  Claim C6 as stated asks for one group per zone observed among all the instances. A zone
  seen only on an instance with an invalid address gets no group: the one instance below
  has zone \<open>z3\<close>, and the grouper returns no group at all.
\<close>
theorem localityLbEndpointsFromInstances_zone_counterexample:
  "localityLbEndpointsFromInstances exampleEnv
     [\<lparr>Endpoint = \<lparr>Address = ''not-an-ip'', Port = 8080\<rparr>, AvailabilityZone = ''z3''\<rparr>] = []
   \<and> remdups (map AvailabilityZone
       [\<lparr>Endpoint = \<lparr>Address = ''not-an-ip'', Port = 8080\<rparr>, AvailabilityZone = ''z3''\<rparr>]) = [''z3'']"
  by (simp add: localityLbEndpointsFromInstances_def addInstance_def newEndpoint_def
      exampleEnv_def exampleParseIP_def)

end
